theory Spec2Isabelle
  imports Main "HOL-Library.Finite_Map"
begin

section \<open>The useFormValidation hook\<close>

text \<open>
  The hook of \<^verbatim>\<open>src/unnamed/part_002\<close> keeps two pieces of React state (\<^verbatim>\<open>errors\<close> and
  \<^verbatim>\<open>hasValidationAttempted\<close>), derives \<^verbatim>\<open>validationRules\<close> and \<^verbatim>\<open>isValid\<close> from its argument
  and its state, and hands out five callbacks. The model below passes the state explicitly:
  a callback that calls a state setter returns the updated state.
\<close>

subsection \<open>Objects and values\<close>

text \<open>
  A JavaScript object is a finite map from property names to values. A property can be
  absent, or present with the value \<^verbatim>\<open>undefined\<close>; the two are different objects.
\<close>

type_synonym 'v obj = "(string, 'v) fmap"

text \<open>The values a property of \<^verbatim>\<open>ValidationRules\<close> can hold (numbers are taken as integers).\<close>

datatype jsval = Undefined | Number int | Boolean bool | StringArray "string list"

text \<open>The object literal \<^verbatim>\<open>{...a, ...b}\<close>: the own properties of \<^verbatim>\<open>a\<close>, then those of
  \<^verbatim>\<open>b\<close> written over them.\<close>

definition spread :: "'v obj \<Rightarrow> 'v obj \<Rightarrow> 'v obj" where
  "spread a b = fmadd a b"

text \<open>\<^verbatim>\<open>Object.keys(o).length\<close>\<close>

definition Object_keys_length :: "'v obj \<Rightarrow> nat" where
  "Object_keys_length o' = fcard (fmdom o')"

text \<open>How a call ends: with a returned value, or with a thrown error.\<close>

datatype 'a completion = Normal 'a | Throw string

subsection \<open>Types of the hook\<close>

text \<open>\<^verbatim>\<open>FormData\<close> (lines 37-44); \<^verbatim>\<open>gender\<close> is optional.\<close>

record FormData =
  username :: string
  password :: string
  gender :: "string option"


text \<open>\<^verbatim>\<open>DEFAULT_RULES\<close> (lines 89-96).\<close>

definition DEFAULT_RULES :: "jsval obj" where
  "DEFAULT_RULES = fmap_of_list
     [(''usernameMinLength'', Number 3),
      (''usernameMaxLength'', Number 20),
      (''passwordMinLength'', Number 8),
      (''passwordRequireSpecialChars'', Boolean True),
      (''isGenderRequired'', Boolean False),
      (''genderOptions'', StringArray [''male'', ''female'', ''other'', ''prefer-not-to-say''])]"

text \<open>
  One instance of the hook: the \<^verbatim>\<open>rules\<close> argument it was called with and its two state
  cells (lines 168-169).
\<close>

record validator =
  rules :: "jsval obj"
  errors :: "string obj"
  hasValidationAttempted :: bool

text \<open>
  \<^verbatim>\<open>useFormValidation(rules = {})\<close> (lines 164-169): a missing argument is the empty object;
  the state starts as \<^verbatim>\<open>{}\<close> and \<^verbatim>\<open>false\<close>.
\<close>

definition useFormValidation :: "jsval obj option \<Rightarrow> validator" where
  "useFormValidation arg =
     \<lparr>rules = (case arg of None \<Rightarrow> fmempty | Some r \<Rightarrow> r),
      errors = fmempty,
      hasValidationAttempted = False\<rparr>"

text \<open>\<^verbatim>\<open>validationRules\<close> (lines 172-175): the argument spread over the defaults.\<close>

definition validationRules :: "validator \<Rightarrow> jsval obj" where
  "validationRules v = spread DEFAULT_RULES (rules v)"

text \<open>\<^verbatim>\<open>isValid\<close> (lines 178-180).\<close>

definition isValid :: "validator \<Rightarrow> bool" where
  "isValid v = (Object_keys_length (errors v) = 0)"

subsection \<open>The callbacks\<close>

text \<open>
  \<^verbatim>\<open>validateField\<close> (lines 183-186). Its body is the single statement
  \<^verbatim>\<open>return undefined;\<close> so it returns \<^verbatim>\<open>undefined\<close> for every field name and value and
  reads neither the rules it closes over nor the state. The field name is a string at run
  time; the parameter type \<^verbatim>\<open>keyof FormData\<close> is checked by the compiler only.
\<close>

definition validateField :: "jsval obj \<Rightarrow> string \<Rightarrow> string \<Rightarrow> string option completion" where
  "validateField vr fieldName val = Normal None"

text \<open>
  \<^verbatim>\<open>validateForm\<close> (lines 189-197): sets the flag, builds \<^verbatim>\<open>newErrors = {}\<close>, adds nothing to
  it, stores it and returns it.
\<close>

definition validateForm :: "FormData \<Rightarrow> validator \<Rightarrow> string obj \<times> validator" where
  "validateForm formData v =
     (let v1 = v\<lparr>hasValidationAttempted := True\<rparr>;
          newErrors = fmempty;
          v2 = v1\<lparr>errors := newErrors\<rparr>
      in (newErrors, v2))"

text \<open>\<^verbatim>\<open>clearErrors\<close> (lines 200-203).\<close>

definition clearErrors :: "validator \<Rightarrow> validator" where
  "clearErrors v = (v\<lparr>errors := fmempty\<rparr>)\<lparr>hasValidationAttempted := False\<rparr>"

text \<open>\<^verbatim>\<open>clearFieldError\<close> (lines 206-212): a copy of the previous object, with the key deleted.\<close>

definition clearFieldError :: "string \<Rightarrow> validator \<Rightarrow> validator" where
  "clearFieldError fieldName v = v\<lparr>errors := fmdrop fieldName (errors v)\<rparr>"

text \<open>\<^verbatim>\<open>setError\<close> (lines 215-220): a copy of the previous object, with the key written.\<close>

definition setError :: "string \<Rightarrow> string \<Rightarrow> validator \<Rightarrow> validator" where
  "setError fieldName error v = v\<lparr>errors := fmupd fieldName error (errors v)\<rparr>"

subsection \<open>Sequences of calls\<close>

text \<open>
  The calls a user of the hook can make. \<^verbatim>\<open>validateField\<close> calls no state setter, so it
  leaves the state as it is; the other four do what their callback does.
\<close>

datatype op =
    ValidateField string string
  | ValidateForm FormData
  | ClearErrors
  | ClearFieldError string
  | SetError string string

fun step :: "op \<Rightarrow> validator \<Rightarrow> validator" where
  "step (ValidateField fieldName val) v = v"
| "step (ValidateForm formData) v = snd (validateForm formData v)"
| "step ClearErrors v = clearErrors v"
| "step (ClearFieldError fieldName) v = clearFieldError fieldName v"
| "step (SetError fieldName error) v = setError fieldName error v"

definition run :: "op list \<Rightarrow> validator \<Rightarrow> validator" where
  "run ops v = fold step ops v"

subsection \<open>Notions of the specification\<close>

text \<open>
  \<^verbatim>\<open>validateForm\<close> has been called at least once since construction or the last
  \<^verbatim>\<open>clearErrors\<close>: the calls after the last \<^verbatim>\<open>clearErrors\<close> contain a
  \<^verbatim>\<open>validateForm\<close>.
\<close>

fun is_ValidateForm :: "op \<Rightarrow> bool" where
  "is_ValidateForm (ValidateForm formData) = True"
| "is_ValidateForm a = False"

definition since_last_clear :: "op list \<Rightarrow> op list" where
  "since_last_clear ops = rev (takeWhile (\<lambda>a. a \<noteq> ClearErrors) (rev ops))"

definition validateForm_called :: "op list \<Rightarrow> bool" where
  "validateForm_called ops = list_ex is_ValidateForm (since_last_clear ops)"

text \<open>The call is \<^verbatim>\<open>setError(key, ...)\<close> for the given key.\<close>

fun sets_key :: "string \<Rightarrow> op \<Rightarrow> bool" where
  "sets_key key (SetError fieldName error) = (fieldName = key)"
| "sets_key key a = False"

section \<open>Merging the rules\<close>

lemma spread_lookup:
  "fmlookup (spread a b) k = (case fmlookup b k of None \<Rightarrow> fmlookup a k | Some x \<Rightarrow> Some x)"
  by (simp add: spread_def fmlookup_dom_iff split: option.split)

lemma DEFAULT_RULES_lookup:
  "fmlookup DEFAULT_RULES k = map_of
     [(''usernameMinLength'', Number 3),
      (''usernameMaxLength'', Number 20),
      (''passwordMinLength'', Number 8),
      (''passwordRequireSpecialChars'', Boolean True),
      (''isGenderRequired'', Boolean False),
      (''genderOptions'', StringArray [''male'', ''female'', ''other'', ''prefer-not-to-say''])] k"
  by (simp only: DEFAULT_RULES_def fmlookup_of_list)

lemma merged_lookup:
  "fmlookup (validationRules (useFormValidation (Some r))) k =
     (case fmlookup r k of Some x \<Rightarrow> Some x | None \<Rightarrow> fmlookup DEFAULT_RULES k)"
  by (simp add: validationRules_def useFormValidation_def spread_lookup split: option.split)

lemma merged_no_argument: "validationRules (useFormValidation None) = DEFAULT_RULES"
  by (simp add: validationRules_def useFormValidation_def spread_def)

lemma DEFAULT_RULES_values:
  "fmlookup DEFAULT_RULES ''usernameMinLength'' = Some (Number 3)"
  "fmlookup DEFAULT_RULES ''usernameMaxLength'' = Some (Number 20)"
  "fmlookup DEFAULT_RULES ''passwordMinLength'' = Some (Number 8)"
  "fmlookup DEFAULT_RULES ''passwordRequireSpecialChars'' = Some (Boolean True)"
  "fmlookup DEFAULT_RULES ''isGenderRequired'' = Some (Boolean False)"
  "fmlookup DEFAULT_RULES ''genderOptions'' =
     Some (StringArray [''male'', ''female'', ''other'', ''prefer-not-to-say''])"
  by (simp_all add: DEFAULT_RULES_lookup)

lemma DEFAULT_RULES_keys:
  "fmdom DEFAULT_RULES = fset_of_list [''usernameMinLength'', ''usernameMaxLength'',
     ''passwordMinLength'', ''passwordRequireSpecialChars'', ''isGenderRequired'',
     ''genderOptions'']"
  by (simp add: DEFAULT_RULES_def)

lemma merged_passwordMinLength_10:
  "validationRules (useFormValidation (Some (fmap_of_list [(''passwordMinLength'', Number 10)])))
     = fmupd ''passwordMinLength'' (Number 10) DEFAULT_RULES"
  by (rule fmap_ext) (simp add: merged_lookup)

text \<open>
  C5. Every key of the merged configuration holds the caller's value when the caller's object
  has the key, and the default otherwise, each key on its own. The defaults are
  usernameMinLength 3, usernameMaxLength 20, passwordMinLength 8, passwordRequireSpecialChars
  true, isGenderRequired false and genderOptions male, female, other, prefer-not-to-say, and
  there is no other default. The rules \<^verbatim>\<open>{passwordMinLength: 10}\<close> give 10 for that key and
  the default for every other key, and a call without rules gives the defaults.
\<close>

theorem validationRules_merge:
  "fmlookup (validationRules (useFormValidation (Some r))) k =
     (case fmlookup r k of Some x \<Rightarrow> Some x | None \<Rightarrow> fmlookup DEFAULT_RULES k)
   \<and> fmlookup DEFAULT_RULES ''usernameMinLength'' = Some (Number 3)
   \<and> fmlookup DEFAULT_RULES ''usernameMaxLength'' = Some (Number 20)
   \<and> fmlookup DEFAULT_RULES ''passwordMinLength'' = Some (Number 8)
   \<and> fmlookup DEFAULT_RULES ''passwordRequireSpecialChars'' = Some (Boolean True)
   \<and> fmlookup DEFAULT_RULES ''isGenderRequired'' = Some (Boolean False)
   \<and> fmlookup DEFAULT_RULES ''genderOptions'' =
       Some (StringArray [''male'', ''female'', ''other'', ''prefer-not-to-say''])
   \<and> fmdom DEFAULT_RULES = fset_of_list [''usernameMinLength'', ''usernameMaxLength'',
       ''passwordMinLength'', ''passwordRequireSpecialChars'', ''isGenderRequired'',
       ''genderOptions'']
   \<and> validationRules
        (useFormValidation (Some (fmap_of_list [(''passwordMinLength'', Number 10)])))
       = fmupd ''passwordMinLength'' (Number 10) DEFAULT_RULES
   \<and> validationRules (useFormValidation None) = DEFAULT_RULES"
  using merged_lookup [of r k] DEFAULT_RULES_values DEFAULT_RULES_keys
    merged_passwordMinLength_10 merged_no_argument
  by (simp only: simp_thms)

text \<open>
  C10. A key that the caller's object holds with the value \<^verbatim>\<open>undefined\<close> is
  \<^verbatim>\<open>undefined\<close> in the merged configuration, not the default; a key the caller's object
  holds has the caller's value, and the default is used only for a key that the caller's
  object does not have.
\<close>

theorem validationRules_undefined_overrides:
  "(fmlookup r k = Some Undefined \<longrightarrow>
      fmlookup (validationRules (useFormValidation (Some r))) k = Some Undefined)
   \<and> (k |\<in>| fmdom r \<longrightarrow>
        fmlookup (validationRules (useFormValidation (Some r))) k = fmlookup r k)
   \<and> (k |\<notin>| fmdom r \<longrightarrow>
        fmlookup (validationRules (useFormValidation (Some r))) k = fmlookup DEFAULT_RULES k)"
  by (auto simp add: merged_lookup fmlookup_dom_iff split: option.splits)

theorem validationRules_undefined_overrides_witness:
  "fmlookup (fmap_of_list [(''usernameMinLength'', Undefined)]) ''usernameMinLength''
     = Some Undefined
   \<and> ''usernameMinLength'' |\<in>| fmdom (fmap_of_list [(''usernameMinLength'', Undefined)])
   \<and> ''passwordMinLength'' |\<notin>| fmdom (fmap_of_list [(''usernameMinLength'', Undefined)])
   \<and> fmlookup (validationRules (useFormValidation
         (Some (fmap_of_list [(''usernameMinLength'', Undefined)])))) ''usernameMinLength''
       = Some Undefined
   \<and> fmlookup (validationRules (useFormValidation
         (Some (fmap_of_list [(''usernameMinLength'', Undefined)])))) ''passwordMinLength''
       = Some (Number 8)"
  using validationRules_undefined_overrides
      [of "fmap_of_list [(''usernameMinLength'', Undefined)]" "''usernameMinLength''"]
    validationRules_undefined_overrides
      [of "fmap_of_list [(''usernameMinLength'', Undefined)]" "''passwordMinLength''"]
  by (simp add: DEFAULT_RULES_lookup)

section \<open>Validation of fields and of the form\<close>

lemma validateForm_fst: "fst (validateForm formData v) = fmempty"
  by (simp add: validateForm_def)

lemma validateForm_snd:
  "snd (validateForm formData v) = v\<lparr>hasValidationAttempted := True, errors := fmempty\<rparr>"
  by (simp add: validateForm_def)


text \<open>
  C2, evaluated. Under the default rules (usernameMinLength 3, usernameMaxLength 20)
  \<^verbatim>\<open>validateField\<close> returns no error for the username \<^verbatim>\<open>ab\<close> of length 2 and for a
  username of length 21, and \<^verbatim>\<open>validateForm({username:"ab", password:"Passw0rd!"})\<close>
  returns the empty map.
\<close>

theorem validateField_username_evaluated:
  "fmlookup (validationRules (useFormValidation None)) ''usernameMinLength'' = Some (Number 3)
   \<and> fmlookup (validationRules (useFormValidation None)) ''usernameMaxLength''
       = Some (Number 20)
   \<and> length ''ab'' = 2
   \<and> validateField (validationRules (useFormValidation None)) ''username'' ''ab''
       = Normal None
   \<and> length ''abcdefghijklmnopqrstu'' = 21
   \<and> validateField (validationRules (useFormValidation None)) ''username''
        ''abcdefghijklmnopqrstu'' = Normal None
   \<and> fst (validateForm \<lparr>username = ''ab'', password = ''Passw0rd!'', gender = None\<rparr>
        (useFormValidation None)) = fmempty"
  by (simp add: merged_no_argument DEFAULT_RULES_lookup validateField_def validateForm_fst)

text \<open>
  C3, evaluated. Under the default rules (passwordMinLength 8, passwordRequireSpecialChars
  true) \<^verbatim>\<open>validateField\<close> returns no error for the password \<^verbatim>\<open>short\<close> of length 5 and
  for the password \<^verbatim>\<open>longenough\<close>, and
  \<^verbatim>\<open>validateForm({username:"alice", password:"longenough"})\<close> returns the empty map.
\<close>

theorem validateField_password_evaluated:
  "fmlookup (validationRules (useFormValidation None)) ''passwordMinLength'' = Some (Number 8)
   \<and> fmlookup (validationRules (useFormValidation None)) ''passwordRequireSpecialChars''
       = Some (Boolean True)
   \<and> length ''short'' = 5
   \<and> validateField (validationRules (useFormValidation None)) ''password'' ''short''
       = Normal None
   \<and> validateField (validationRules (useFormValidation None)) ''password'' ''longenough''
       = Normal None
   \<and> fst (validateForm \<lparr>username = ''alice'', password = ''longenough'', gender = None\<rparr>
        (useFormValidation None)) = fmempty"
  by (simp add: merged_no_argument DEFAULT_RULES_lookup validateField_def validateForm_fst)

text \<open>
  C4, evaluated. With the rules \<^verbatim>\<open>{isGenderRequired: true}\<close> (and the default
  genderOptions) \<^verbatim>\<open>validateField\<close> returns no error for the empty gender and for the gender
  \<^verbatim>\<open>robot\<close>, which is not among the options.
\<close>

theorem validateField_gender_evaluated:
  "fmlookup (validationRules (useFormValidation
       (Some (fmap_of_list [(''isGenderRequired'', Boolean True)])))) ''isGenderRequired''
     = Some (Boolean True)
   \<and> fmlookup (validationRules (useFormValidation
       (Some (fmap_of_list [(''isGenderRequired'', Boolean True)])))) ''genderOptions''
     = Some (StringArray [''male'', ''female'', ''other'', ''prefer-not-to-say''])
   \<and> validateField (validationRules (useFormValidation
         (Some (fmap_of_list [(''isGenderRequired'', Boolean True)])))) ''gender'' []
       = Normal None
   \<and> validateField (validationRules (useFormValidation
         (Some (fmap_of_list [(''isGenderRequired'', Boolean True)])))) ''gender'' ''robot''
       = Normal None"
  by (simp add: merged_lookup DEFAULT_RULES_lookup validateField_def)




section \<open>The error state\<close>

lemma step_rules: "rules (step a v) = rules v"
  by (cases a) (simp_all add: validateForm_snd clearErrors_def clearFieldError_def setError_def)

lemma run_snoc: "run (ops @ [a]) v = step a (run ops v)"
  by (simp add: run_def)

lemma since_last_clear_snoc:
  "since_last_clear (ops @ [a]) = (if a = ClearErrors then [] else since_last_clear ops @ [a])"
  by (simp add: since_last_clear_def)

lemma validateForm_called_snoc:
  "validateForm_called (ops @ [a]) =
     (if a = ClearErrors then False else validateForm_called ops \<or> is_ValidateForm a)"
  by (simp add: validateForm_called_def since_last_clear_snoc)

lemma step_hasValidationAttempted:
  "hasValidationAttempted (step a v) =
     (if a = ClearErrors then False else hasValidationAttempted v \<or> is_ValidateForm a)"
  by (cases a) (simp_all add: validateForm_snd clearErrors_def clearFieldError_def setError_def)

lemma hasValidationAttempted_run:
  "hasValidationAttempted (run ops (useFormValidation arg)) = validateForm_called ops"
proof (induction ops rule: rev_induct)
  case Nil
  show ?case
    by (simp add: run_def useFormValidation_def validateForm_called_def since_last_clear_def)
next
  case (snoc a ops)
  then show ?case
    by (simp only: run_snoc step_hasValidationAttempted validateForm_called_snoc)
qed

lemma isValid_iff: "isValid v \<longleftrightarrow> errors v = fmempty"
proof -
  have "fcard (fmdom (errors v)) = 0 \<longleftrightarrow> fmdom (errors v) = {||}"
    by simp
  also have "\<dots> \<longleftrightarrow> errors v = fmempty"
    by (metis fmdom_empty fmrestrict_fset_dom fmrestrict_fset_null)
  finally show ?thesis
    by (simp add: isValid_def Object_keys_length_def)
qed

text \<open>
  C6. After \<^verbatim>\<open>validateForm(data)\<close> the stored error map is the map the call returned and
  \<^verbatim>\<open>hasValidationAttempted\<close> is true. In every state \<^verbatim>\<open>isValid\<close> is true if and only if
  the stored error map is empty. After any sequence of calls on a new validator
  \<^verbatim>\<open>hasValidationAttempted\<close> is true exactly when \<^verbatim>\<open>validateForm\<close> has been called since
  construction or since the last \<^verbatim>\<open>clearErrors\<close>. \<^verbatim>\<open>clearErrors\<close> leaves the map empty and
  the flag false.
\<close>

theorem error_state_bookkeeping:
  "errors (snd (validateForm formData v)) = fst (validateForm formData v)
   \<and> hasValidationAttempted (snd (validateForm formData v))
   \<and> (isValid v \<longleftrightarrow> errors v = fmempty)
   \<and> (hasValidationAttempted (run ops (useFormValidation arg)) \<longleftrightarrow> validateForm_called ops)
   \<and> errors (clearErrors v) = fmempty
   \<and> \<not> hasValidationAttempted (clearErrors v)"
  using isValid_iff [of v] hasValidationAttempted_run [of ops arg]
  by (simp add: validateForm_fst validateForm_snd clearErrors_def)

lemma step_keeps_key_absent:
  "\<not> sets_key key a \<Longrightarrow> key |\<notin>| fmdom (errors v) \<Longrightarrow> key |\<notin>| fmdom (errors (step a v))"
  by (cases a) (simp_all add: validateForm_snd clearErrors_def clearFieldError_def setError_def)

lemma run_keeps_key_absent:
  "\<not> list_ex (sets_key key) ops \<Longrightarrow> key |\<notin>| fmdom (errors v)
     \<Longrightarrow> key |\<notin>| fmdom (errors (run ops v))"
proof (induction ops arbitrary: v)
  case Nil
  then show ?case by (simp add: run_def)
next
  case (Cons a ops)
  from Cons.prems have "key |\<notin>| fmdom (errors (step a v))"
    by (simp add: step_keeps_key_absent)
  moreover from Cons.prems have "\<not> list_ex (sets_key key) ops"
    by simp
  ultimately have "key |\<notin>| fmdom (errors (run ops (step a v)))"
    by (rule Cons.IH [rotated])
  then show ?case by (simp add: run_def)
qed

text \<open>
  C7, as stated, fails: on a validator with the default rules, where isGenderRequired is
  false, the single call \<^verbatim>\<open>setError('gender', 'Required')\<close> leaves a gender entry in the
  error map.
\<close>

theorem gender_entry_counterexample:
  "fmlookup (validationRules (useFormValidation None)) ''isGenderRequired''
     = Some (Boolean False)
   \<and> fmlookup (errors (run [SetError ''gender'' ''Required''] (useFormValidation None)))
       ''gender'' = Some ''Required''"
  by (simp add: validationRules_def spread_def DEFAULT_RULES_lookup run_def setError_def
      useFormValidation_def)

lemma setError_lookup:
  "fmlookup (errors (setError fieldName error v)) k =
     (if k = fieldName then Some error else fmlookup (errors v) k)"
  by (simp add: setError_def)

text \<open>
  C7, amended. In every state reached from a new validator with isGenderRequired false by a
  sequence of calls of validateField, validateForm, clearErrors, clearFieldError and setError
  in which setError is not called with the field name gender, the error map has no gender
  entry. \<^verbatim>\<open>setError('gender', message)\<close> itself stores a gender entry with that message,
  in every state and under every configuration, so also at the end of any sequence of calls
  on any new validator.
\<close>

theorem no_gender_entry_without_setError:
  "(fmlookup (validationRules (useFormValidation arg)) ''isGenderRequired''
      = Some (Boolean False)
    \<longrightarrow> \<not> list_ex (sets_key ''gender'') ops
    \<longrightarrow> ''gender'' |\<notin>| fmdom (errors (run ops (useFormValidation arg))))
   \<and> fmlookup (errors (setError ''gender'' message v)) ''gender'' = Some message
   \<and> fmlookup (errors (run (ops' @ [SetError ''gender'' message]) (useFormValidation arg')))
        ''gender'' = Some message"
proof (intro conjI impI)
  assume "\<not> list_ex (sets_key ''gender'') ops"
  then show "''gender'' |\<notin>| fmdom (errors (run ops (useFormValidation arg)))"
    by (rule run_keeps_key_absent) (simp add: useFormValidation_def)
next
  show "fmlookup (errors (setError ''gender'' message v)) ''gender'' = Some message"
    by (simp add: setError_lookup)
next
  show "fmlookup (errors (run (ops' @ [SetError ''gender'' message]) (useFormValidation arg')))
        ''gender'' = Some message"
    by (simp add: run_snoc setError_lookup)
qed

theorem no_gender_entry_without_setError_witness:
  "fmlookup (validationRules (useFormValidation None)) ''isGenderRequired''
     = Some (Boolean False)
   \<and> \<not> list_ex (sets_key ''gender'')
        [SetError ''form'' ''Server rejected'',
         ValidateField ''gender'' ''robot'',
         ClearFieldError ''username'',
         ValidateForm \<lparr>username = ''ab'', password = ''short'', gender = Some ''robot''\<rparr>,
         SetError ''username'' ''Taken'']
   \<and> ''gender'' |\<notin>| fmdom (errors (run
        [SetError ''form'' ''Server rejected'',
         ValidateField ''gender'' ''robot'',
         ClearFieldError ''username'',
         ValidateForm \<lparr>username = ''ab'', password = ''short'', gender = Some ''robot''\<rparr>,
         SetError ''username'' ''Taken'']
        (useFormValidation None)))
   \<and> fmlookup (errors (setError ''gender'' ''Required''
        (useFormValidation (Some (fmap_of_list [(''isGenderRequired'', Boolean True)])))))
        ''gender'' = Some ''Required''
   \<and> fmlookup (errors (run [ClearErrors, SetError ''gender'' ''Required'']
        (useFormValidation None))) ''gender'' = Some ''Required''"
  using no_gender_entry_without_setError [of None
        "[SetError ''form'' ''Server rejected'',
         ValidateField ''gender'' ''robot'',
         ClearFieldError ''username'',
         ValidateForm \<lparr>username = ''ab'', password = ''short'', gender = Some ''robot''\<rparr>,
         SetError ''username'' ''Taken'']"
        "''Required''"
        "useFormValidation (Some (fmap_of_list [(''isGenderRequired'', Boolean True)]))"
        "[ClearErrors]" None]
  by (simp add: merged_no_argument DEFAULT_RULES_lookup)

text \<open>
  C8. \<^verbatim>\<open>clearFieldError(fieldName)\<close> leaves the error map without the named key and with
  every other key as it was, present or absent and with the same message; when the named key
  was absent the whole state is unchanged; \<^verbatim>\<open>hasValidationAttempted\<close> (and the rules) are
  unchanged in both cases.
\<close>

theorem clearFieldError_frame:
  "fmlookup (errors (clearFieldError fieldName v)) k =
     (if k = fieldName then None else fmlookup (errors v) k)
   \<and> fmdom (errors (clearFieldError fieldName v)) = fmdom (errors v) |-| {|fieldName|}
   \<and> (fieldName |\<notin>| fmdom (errors v) \<longrightarrow> clearFieldError fieldName v = v)
   \<and> hasValidationAttempted (clearFieldError fieldName v) = hasValidationAttempted v
   \<and> rules (clearFieldError fieldName v) = rules v"
  by (simp add: clearFieldError_def fmdrop_idle)

theorem clearFieldError_frame_witness:
  "''gender'' |\<notin>| fmdom (errors (setError ''username'' ''Taken'' (useFormValidation None)))
   \<and> clearFieldError ''gender'' (setError ''username'' ''Taken'' (useFormValidation None))
       = setError ''username'' ''Taken'' (useFormValidation None)
   \<and> fmlookup (errors (clearFieldError ''gender''
         (setError ''username'' ''Taken'' (useFormValidation None)))) ''username''
       = Some ''Taken''"
  using clearFieldError_frame
      [of "''gender''" "setError ''username'' ''Taken'' (useFormValidation None)" "''username''"]
  by (simp add: setError_def useFormValidation_def)

end
